theory Spec2Isabelle
  imports Complex_Main "HOL-Library.Multiset" "HOL-Library.Stream"
begin

section \<open>The recommendation engine of the music recommender (class MusicRecommender, app.js)\<close>

text \<open>
  The class \<^verbatim>\<open>MusicRecommender\<close> keeps its session in mutable fields and changes them in
  its methods. The embedding passes the session as a record and returns the updated record.
  JavaScript numbers are taken as exact: integers for ratings, identifiers and counts, reals
  for scores and the results of \<^verbatim>\<open>Math.random()\<close>. Rendering, storage and the DOM are
  outside the embedding. Property names (rating keys, tags, eras) are assumed to differ from
  the members every object inherits from \<^verbatim>\<open>Object.prototype\<close>.
\<close>

subsection \<open>Data\<close>

text \<open>
  An artist identifier is a number (the catalog) or a string (\<^verbatim>\<open>custom_<time>\<close>). Strict
  equality and \<^verbatim>\<open>includes\<close> compare identifiers as they are; used as a property name an
  identifier is converted to a string.
\<close>

datatype ident = IdNum int | IdStr string

record artist =
  artist_id :: ident
  name :: string
  genres :: "string list"
  themes :: "string list"
  styles :: "string list"
  year :: int
  era :: string
  isCustom :: bool
  score :: "real option"

record rating_entry =
  rating :: int
  timestamp :: int

record listen_item =
  item_id :: ident
  item_name :: string
  item_genres :: "string list"
  item_timestamp :: int

text \<open>
  \<^verbatim>\<open>userRatings\<close> is an object used as a dictionary: an association list from property
  names to entries, in the order of \<^verbatim>\<open>Object.entries\<close>.
\<close>

record state =
  artists :: "artist list"
  userRatings :: "(string \<times> rating_entry) list"
  toListenList :: "listen_item list"
  currentRecommendations :: "artist list"
  recentlyShown :: "ident list"
  recommendationCount :: int

record preferences =
  pgenres :: "string \<rightharpoonup> int"
  pthemes :: "string \<rightharpoonup> int"
  pstyles :: "string \<rightharpoonup> int"
  peras :: "string \<rightharpoonup> int"
  averageRating :: real

subsection \<open>The primitives of the language that the engine uses\<close>

definition digit_char :: "nat \<Rightarrow> char" where
  "digit_char d = ''0123456789'' ! d"

function string_of_nat :: "nat \<Rightarrow> string" where
  "string_of_nat n = (if n < 10 then [digit_char n] else string_of_nat (n div 10) @ [digit_char (n mod 10)])"
  by pat_completeness auto
termination
  by (relation "measure id") auto

declare string_of_nat.simps [simp del]

definition string_of_int :: "int \<Rightarrow> string" where
  "string_of_int i = (if i < 0 then CHR ''-'' # string_of_nat (nat (- i)) else string_of_nat (nat i))"

text \<open>\<^verbatim>\<open>obj[id]\<close>: the property name of an identifier.\<close>

fun prop_key :: "ident \<Rightarrow> string" where
  "prop_key (IdNum n) = string_of_int n"
| "prop_key (IdStr s) = s"

text \<open>
  \<^verbatim>\<open>a.id == artistId\<close> with \<^verbatim>\<open>artistId\<close> a property name: two strings are compared as
  strings; a number is compared with the numeric value of the string. The conversion of a
  string to a number is the parameter \<open>toNumber\<close> (\<open>None\<close> when the value is no integer).
\<close>

fun loose_eq :: "(string \<Rightarrow> int option) \<Rightarrow> ident \<Rightarrow> string \<Rightarrow> bool" where
  "loose_eq toNumber (IdNum n) k = (toNumber k = Some n)"
| "loose_eq toNumber (IdStr s) k = (s = k)"

text \<open>\<^verbatim>\<open>xs.slice(start, end)\<close> and \<^verbatim>\<open>xs.slice(start)\<close>, negative indices counting from the end.\<close>

definition slice_index :: "'a list \<Rightarrow> int \<Rightarrow> nat" where
  "slice_index xs i =
     (let len = int (length xs) in nat (if i < 0 then max (len + i) 0 else min i len))"

definition js_slice :: "'a list \<Rightarrow> int \<Rightarrow> int \<Rightarrow> 'a list" where
  "js_slice xs start end = take (slice_index xs end - slice_index xs start) (drop (slice_index xs start) xs)"

definition js_slice_from :: "'a list \<Rightarrow> int \<Rightarrow> 'a list" where
  "js_slice_from xs start = drop (slice_index xs start) xs"

text \<open>\<^verbatim>\<open>Math.random()\<close> returns a number in \<open>[0, 1)\<close>; the generator is a stream of such draws.\<close>

typedef draw = "{r :: real. 0 \<le> r \<and> r < 1}"
  by (rule exI [of _ 0]) simp

setup_lifting type_definition_draw

lift_definition draw_of_percent :: "nat \<Rightarrow> draw" is "\<lambda>p. real (p mod 100) / 100"
  by (simp add: divide_less_eq)

type_synonym rng = "draw stream"

text \<open>\<^verbatim>\<open>Math.floor(Math.random() * n)\<close>\<close>

definition random_index :: "draw \<Rightarrow> nat \<Rightarrow> nat" where
  "random_index d n = nat \<lfloor>Rep_draw d * real n\<rfloor>"

subsection \<open>getUserPreferences\<close>

definition weight :: "(string \<rightharpoonup> int) \<Rightarrow> string \<Rightarrow> int" where
  "weight m tag = (case m tag of None \<Rightarrow> 0 | Some w \<Rightarrow> w)"

definition add_weight :: "int \<Rightarrow> (string \<rightharpoonup> int) \<Rightarrow> string \<Rightarrow> (string \<rightharpoonup> int)" where
  "add_weight w m tag = m(tag \<mapsto> weight m tag + w)"

definition empty_preferences :: preferences where
  "empty_preferences =
     \<lparr>pgenres = Map.empty, pthemes = Map.empty, pstyles = Map.empty, peras = Map.empty,
      averageRating = 0\<rparr>"

definition find_artist :: "(string \<Rightarrow> int option) \<Rightarrow> artist list \<Rightarrow> string \<Rightarrow> artist option" where
  "find_artist toNumber as artistId = find (\<lambda>a. loose_eq toNumber (artist_id a) artistId) as"

text \<open>The body of the \<^verbatim>\<open>forEach\<close> over the rating entries, on the profile and the two counters.\<close>

definition pref_step ::
  "(string \<Rightarrow> int option) \<Rightarrow> artist list \<Rightarrow> preferences \<times> int \<times> nat \<Rightarrow> string \<times> rating_entry
     \<Rightarrow> preferences \<times> int \<times> nat" where
  "pref_step toNumber as acc entry =
     (case acc of (p, totalRating, ratingCount) \<Rightarrow>
      case entry of (artistId, d) \<Rightarrow>
      case find_artist toNumber as artistId of
        None \<Rightarrow> (p, totalRating, ratingCount)
      | Some a \<Rightarrow>
          (p\<lparr>pgenres := foldl (add_weight (rating d)) (pgenres p) (genres a),
             pthemes := foldl (add_weight (rating d)) (pthemes p) (themes a),
             pstyles := foldl (add_weight (rating d)) (pstyles p) (styles a),
             peras := add_weight (rating d) (peras p) (era a)\<rparr>,
           totalRating + rating d, Suc ratingCount))"

definition getUserPreferences :: "(string \<Rightarrow> int option) \<Rightarrow> state \<Rightarrow> preferences" where
  "getUserPreferences toNumber st =
     (case foldl (pref_step toNumber (artists st)) (empty_preferences, 0, 0) (userRatings st) of
        (p, totalRating, ratingCount) \<Rightarrow>
          p\<lparr>averageRating := (if ratingCount > 0 then of_int totalRating / of_nat ratingCount else 0)\<rparr>)"

text \<open>The rating entries whose artist is found in the catalog.\<close>

definition in_catalog :: "(string \<Rightarrow> int option) \<Rightarrow> artist list \<Rightarrow> string \<times> rating_entry \<Rightarrow> bool" where
  "in_catalog toNumber as e = (find_artist toNumber as (fst e) \<noteq> None)"

definition found_ratings :: "(string \<Rightarrow> int option) \<Rightarrow> state \<Rightarrow> (string \<times> rating_entry) list" where
  "found_ratings toNumber st = filter (in_catalog toNumber (artists st)) (userRatings st)"

definition rating_sum :: "(string \<times> rating_entry) list \<Rightarrow> int" where
  "rating_sum es = sum_list (map (\<lambda>e. rating (snd e)) es)"

subsection \<open>calculateArtistScore and the scoring of the candidates\<close>

text \<open>The draw \<open>d\<close> is the result of the call of \<^verbatim>\<open>Math.random()\<close> in the body.\<close>

definition calculateArtistScore :: "artist \<Rightarrow> preferences \<Rightarrow> draw \<Rightarrow> real" where
  "calculateArtistScore a p d =
     (let s0 = (0 :: int);
          s1 = foldl (\<lambda>s genre. s + weight (pgenres p) genre * 3) s0 (genres a);
          s2 = foldl (\<lambda>s theme. s + weight (pthemes p) theme * 2) s1 (themes a);
          s3 = foldl (\<lambda>s style. s + weight (pstyles p) style * 2) s2 (styles a);
          s4 = s3 + weight (peras p) (era a) * 1
      in of_int s4 + Rep_draw d * 10)"

text \<open>
  \<^verbatim>\<open>unratedArtists.map(artist => ({...artist, score: ...}))\<close>: one draw for each artist, in
  the order of the list.
\<close>

fun score_all :: "preferences \<Rightarrow> artist list \<Rightarrow> rng \<Rightarrow> artist list \<times> rng" where
  "score_all p [] g = ([], g)"
| "score_all p (a # as) g =
     (case score_all p as (stl g) of
        (rest, g') \<Rightarrow> (a\<lparr>score := Some (calculateArtistScore a p (shd g))\<rparr> # rest, g'))"

text \<open>
  \<^verbatim>\<open>scoredArtists.sort((a, b) => b.score - a.score)\<close>: a stable sort, descending by score.
  Every artist it is applied to carries a score.
\<close>

definition score_of :: "artist \<Rightarrow> real" where
  "score_of a = (case score a of None \<Rightarrow> 0 | Some s \<Rightarrow> s)"

definition sort_by_score :: "artist list \<Rightarrow> artist list" where
  "sort_by_score as = sort_key (\<lambda>a. - score_of a) as"

subsection \<open>selectRecommendations\<close>

text \<open>
  The \<^verbatim>\<open>for\<close> loop that moves randomly chosen artists from \<^verbatim>\<open>remaining\<close> to
  \<^verbatim>\<open>recommendations\<close>. The index is below the length of \<^verbatim>\<open>remaining\<close>, since a draw is
  below 1.
\<close>

function pick_loop :: "int \<Rightarrow> int \<Rightarrow> artist list \<Rightarrow> artist list \<Rightarrow> rng \<Rightarrow> artist list \<times> rng" where
  "pick_loop i randomCount recommendations remaining g =
     (if i < randomCount \<and> remaining \<noteq> [] then
        (let randomIndex = random_index (shd g) (length remaining)
         in pick_loop (i + 1) randomCount (recommendations @ [remaining ! randomIndex])
              (take randomIndex remaining @ drop (Suc randomIndex) remaining) (stl g))
      else (recommendations, g))"
  by pat_completeness auto
termination
  by (relation "measure (\<lambda>(i, randomCount, _). nat (randomCount - i))") auto

declare pick_loop.simps [simp del]

definition track_shown :: "ident list \<Rightarrow> artist list \<Rightarrow> ident list" where
  "track_shown shown recs =
     foldl (\<lambda>w a. if artist_id a \<in> set w then w else w @ [artist_id a]) shown recs"

text \<open>
  The constants \<^verbatim>\<open>count\<close>, \<^verbatim>\<open>availableArtists\<close> and \<^verbatim>\<open>topCount\<close> of the body.
  \<^verbatim>\<open>Math.ceil(count * 0.7)\<close> is taken on exact numbers; in double precision it has the same
  value for every count from 0 up to \<open>10 ^ 14\<close>, and for the counts -1 and -2.
\<close>

definition select_count :: "state \<Rightarrow> artist list \<Rightarrow> int" where
  "select_count st scoredArtists = min (recommendationCount st) (int (length scoredArtists))"

definition availableArtists :: "state \<Rightarrow> artist list \<Rightarrow> artist list" where
  "availableArtists st scoredArtists =
     (let freshArtists = filter (\<lambda>a. artist_id a \<notin> set (recentlyShown st)) scoredArtists
      in if int (length freshArtists) \<ge> select_count st scoredArtists then freshArtists
         else scoredArtists)"

definition topCount :: "int \<Rightarrow> int" where
  "topCount c = \<lceil>real_of_int c * 0.7\<rceil>"

definition selectRecommendations :: "state \<Rightarrow> artist list \<Rightarrow> rng \<Rightarrow> artist list \<times> state \<times> rng" where
  "selectRecommendations st scoredArtists g =
     (let count = select_count st scoredArtists;
          available = availableArtists st scoredArtists;
          randomCount = count - topCount count;
          top = js_slice available 0 (topCount count);
          remaining = js_slice_from available (topCount count)
      in case pick_loop 0 randomCount top remaining g of
           (recommendations, g') \<Rightarrow>
             (let shown = track_shown (recentlyShown st) recommendations;
                  shown' = (if length shown > 24 then js_slice_from shown (- 24) else shown)
              in (recommendations, st\<lparr>recentlyShown := shown'\<rparr>, g')))"

subsection \<open>getInitialBandsPool and getInitialBands\<close>

definition popularBandIds :: "int list" where
  "popularBandIds =
     [1, 2, 3, 11, 18, 21, 44, 43, 47, 9, 56,
      26, 33, 82,
      13, 31, 20, 27, 71, 98,
      8, 7, 22, 42, 65, 79, 88, 38, 48, 77, 107,
      6, 5, 52, 53, 78,
      12, 16, 25, 15, 19,
      39, 49, 93,
      10, 23, 54, 50, 70,
      14, 34, 28, 60, 45]"

definition getInitialBandsPool :: "state \<Rightarrow> artist list" where
  "getInitialBandsPool st =
     List.map_filter (\<lambda>i. find (\<lambda>a. artist_id a = IdNum i) (artists st)) popularBandIds"

text \<open>\<^verbatim>\<open>!this.userRatings[artist.id]\<close>: an entry is an object, so it is truthy when present.\<close>

definition is_rated :: "state \<Rightarrow> artist \<Rightarrow> bool" where
  "is_rated st a = (map_of (userRatings st) (prop_key (artist_id a)) \<noteq> None)"

definition in_listen_list :: "state \<Rightarrow> artist \<Rightarrow> bool" where
  "in_listen_list st a = list_ex (\<lambda>item. item_id item = artist_id a) (toListenList st)"

definition availableBands :: "state \<Rightarrow> artist list" where
  "availableBands st =
     filter (\<lambda>a. \<not> is_rated st a \<and> \<not> in_listen_list st a \<and> artist_id a \<notin> set (recentlyShown st))
       (getInitialBandsPool st)"

text \<open>
  \<^verbatim>\<open>[...availableBands].sort(() => Math.random() - 0.5)\<close>: the order that a sort produces
  under a random comparator, and the number of draws it takes, are left to the engine; they
  are the parameter \<open>shuffle\<close>. A call that does not return has the value \<open>None\<close>.
\<close>

type_synonym shuffle = "artist list \<Rightarrow> rng \<Rightarrow> artist list \<times> rng"

partial_function (option) getInitialBands :: "shuffle \<Rightarrow> state \<Rightarrow> rng \<Rightarrow> (artist list \<times> state \<times> rng) option" where
  "getInitialBands shuffle st g =
     (if int (length (availableBands st)) < recommendationCount st then
        getInitialBands shuffle (st\<lparr>recentlyShown := []\<rparr>) g
      else
        (case shuffle (availableBands st) g of
           (shuffled, g') \<Rightarrow>
             (let selected = js_slice shuffled 0 (recommendationCount st);
                  shown = recentlyShown st @ map artist_id selected;
                  shown' = (if length shown > 18 then js_slice_from shown (- 18) else shown)
              in Some (selected, st\<lparr>recentlyShown := shown'\<rparr>, g'))))"

subsection \<open>generateRecommendations\<close>

definition unratedArtists :: "state \<Rightarrow> artist list" where
  "unratedArtists st = filter (\<lambda>a. \<not> is_rated st a \<and> \<not> in_listen_list st a) (artists st)"

definition generateRecommendations ::
  "shuffle \<Rightarrow> (string \<Rightarrow> int option) \<Rightarrow> state \<Rightarrow> rng \<Rightarrow> (state \<times> rng) option" where
  "generateRecommendations shuffle toNumber st g =
     (if length (map fst (userRatings st)) = 0 then
        (case getInitialBands shuffle st g of
           None \<Rightarrow> None
         | Some (selected, st', g') \<Rightarrow> Some (st'\<lparr>currentRecommendations := selected\<rparr>, g'))
      else
        (let preferences = getUserPreferences toNumber st in
         case score_all preferences (unratedArtists st) g of
           (scoredArtists, g1) \<Rightarrow>
             (case selectRecommendations st (sort_by_score scoredArtists) g1 of
                (recommendations, st', g2) \<Rightarrow>
                  Some (st'\<lparr>currentRecommendations := recommendations\<rparr>, g2))))"

subsection \<open>removeRecommendation and removeFromListenList\<close>

definition removeRecommendation ::
  "(string \<Rightarrow> int option) \<Rightarrow> state \<Rightarrow> ident \<Rightarrow> rng \<Rightarrow> state \<times> rng" where
  "removeRecommendation toNumber st artistId g =
     (let cur = filter (\<lambda>a. artist_id a \<noteq> artistId) (currentRecommendations st);
          shown = (\<lambda>a. list_ex (\<lambda>rec. artist_id rec = artist_id a) cur)
      in if length (map fst (userRatings st)) = 0 then
           (let availableBands = filter (\<lambda>a. \<not> shown a \<and> \<not> in_listen_list st a) (getInitialBandsPool st)
            in if length availableBands > 0 then
                 (st\<lparr>currentRecommendations :=
                       cur @ [availableBands ! random_index (shd g) (length availableBands)]\<rparr>, stl g)
               else (st\<lparr>currentRecommendations := cur\<rparr>, g))
         else
           (let preferences = getUserPreferences toNumber st;
                unratedArtists =
                  filter (\<lambda>a. \<not> is_rated st a \<and> \<not> in_listen_list st a \<and> \<not> shown a) (artists st)
            in if length unratedArtists > 0 then
                 (case score_all preferences unratedArtists g of
                    (scoredArtists, g1) \<Rightarrow>
                      (let sorted = sort_by_score scoredArtists;
                           index = random_index (shd g1) (min 10 (length sorted))
                       in (st\<lparr>currentRecommendations := cur @ [sorted ! index]\<rparr>, stl g1)))
               else (st\<lparr>currentRecommendations := cur\<rparr>, g)))"

definition removeFromListenList :: "state \<Rightarrow> ident \<Rightarrow> state" where
  "removeFromListenList st artistId =
     st\<lparr>toListenList := filter (\<lambda>item. item_id item \<noteq> artistId) (toListenList st)\<rparr>"

subsection \<open>The candidates for a replacement\<close>

text \<open>
  The list that \<^verbatim>\<open>removeRecommendation\<close> filters in its two branches, for the displayed
  list \<open>cur\<close> that is left after the removal.
\<close>

definition replacement_pool :: "state \<Rightarrow> artist list \<Rightarrow> artist list" where
  "replacement_pool st cur =
     (if userRatings st = [] then
        filter (\<lambda>a. \<not> list_ex (\<lambda>rec. artist_id rec = artist_id a) cur \<and> \<not> in_listen_list st a)
          (getInitialBandsPool st)
      else
        filter (\<lambda>a. \<not> is_rated st a \<and> \<not> in_listen_list st a
                  \<and> \<not> list_ex (\<lambda>rec. artist_id rec = artist_id a) cur) (artists st))"

subsection \<open>Example sessions\<close>

definition no_number :: "string \<Rightarrow> int option" where
  "no_number k = None"

definition keep_order :: shuffle where
  "keep_order as g = (as, g)"

definition rng_of :: "nat \<Rightarrow> rng" where
  "rng_of p = sconst (draw_of_percent p)"

definition mk_artist :: "ident \<Rightarrow> string \<Rightarrow> string \<Rightarrow> artist" where
  "mk_artist i genre e =
     \<lparr>artist_id = i, name = [], genres = [genre], themes = [], styles = [], year = 0, era = e,
      isCustom = False, score = None\<rparr>"

definition band :: "int \<Rightarrow> artist" where
  "band i = mk_artist (IdNum i) ''rock'' ''1960s''"

definition scored_band :: "int \<Rightarrow> real \<Rightarrow> artist" where
  "scored_band i s = (band i)\<lparr>score := Some s\<rparr>"

text \<open>The session after a failed load of the catalog, before any rating.\<close>

definition empty_session :: state where
  "empty_session =
     \<lparr>artists = [], userRatings = [], toListenList = [], currentRecommendations = [],
      recentlyShown = [], recommendationCount = 6\<rparr>"

definition zero_count_session :: state where
  "zero_count_session = empty_session\<lparr>recommendationCount := 0\<rparr>"

definition negative_count_session :: state where
  "negative_count_session = empty_session\<lparr>recommendationCount := - 2\<rparr>"

definition eight_count_session :: state where
  "eight_count_session = empty_session\<lparr>recommendationCount := 8\<rparr>"

definition unknown_rating_session :: state where
  "unknown_rating_session = empty_session\<lparr>userRatings := [(''999'', \<lparr>rating = 5, timestamp = 0\<rparr>)]\<rparr>"

definition one_band_session :: state where
  "one_band_session = empty_session\<lparr>artists := [band 1]\<rparr>"

definition two_band_session :: state where
  "two_band_session =
     empty_session\<lparr>artists := [band 1, band 2], userRatings := [(''1'', \<lparr>rating = 4, timestamp = 0\<rparr>)]\<rparr>"

definition five_band_session :: state where
  "five_band_session = empty_session\<lparr>artists := [band 1, band 2, band 3, band 11, band 18]\<rparr>"

definition seven_band_session :: state where
  "seven_band_session =
     empty_session\<lparr>artists := [band 1, band 2, band 3, band 11, band 18, band 21, band 44]\<rparr>"

definition two_scored :: "artist list" where
  "two_scored = [scored_band 1 9, scored_band 2 8]"

definition seven_scored :: "artist list" where
  "seven_scored =
     [scored_band 1 70, scored_band 2 60, scored_band 3 50, scored_band 4 40, scored_band 5 30,
      scored_band 6 20, scored_band 7 10]"

definition ten_scored :: "artist list" where
  "ten_scored =
     [scored_band 1 100, scored_band 2 90, scored_band 3 80, scored_band 4 70, scored_band 5 60,
      scored_band 6 50, scored_band 7 40, scored_band 8 30, scored_band 9 20, scored_band 10 10]"

text \<open>Ratings \<^verbatim>\<open>{A: 5, B: 3}\<close> over the catalog A (rock), B (pop), C (rock).\<close>

definition artist_A :: artist where
  "artist_A = mk_artist (IdStr ''A'') ''rock'' ''1960s''"

definition artist_B :: artist where
  "artist_B = mk_artist (IdStr ''B'') ''pop'' ''1980s''"

definition artist_C :: artist where
  "artist_C = mk_artist (IdStr ''C'') ''rock'' ''2000s''"

definition rock_session :: state where
  "rock_session =
     empty_session\<lparr>artists := [artist_A, artist_B, artist_C],
       userRatings := [(''A'', \<lparr>rating = 5, timestamp = 0\<rparr>), (''B'', \<lparr>rating = 3, timestamp = 0\<rparr>)]\<rparr>"

section \<open>Properties\<close>

subsection \<open>Aggregation\<close>

lemma pref_step_counters:
  "snd (foldl (pref_step tn as) (p, t, c) es) =
     (t + rating_sum (filter (in_catalog tn as) es), c + length (filter (in_catalog tn as) es))"
proof (induction es arbitrary: p t c)
  case Nil
  show ?case by (simp add: rating_sum_def)
next
  case (Cons e es)
  obtain k d where e: "e = (k, d)" by (cases e)
  show ?case
  proof (cases "find_artist tn as k")
    case None
    then have "pref_step tn as (p, t, c) e = (p, t, c)" and "\<not> in_catalog tn as e"
      by (simp_all add: e pref_step_def in_catalog_def)
    then show ?thesis using Cons.IH [of p t c] by simp
  next
    case (Some a)
    then obtain p' where "pref_step tn as (p, t, c) e = (p', t + rating d, Suc c)"
      and "in_catalog tn as e"
      by (simp add: e pref_step_def in_catalog_def)
    then show ?thesis using Cons.IH [of p' "t + rating d" "Suc c"]
      by (simp add: rating_sum_def e)
  qed
qed

subsection \<open>Draws, slices and the selection loop\<close>

lemma Rep_draw_bounds: "0 \<le> Rep_draw d" "Rep_draw d < 1"
  using Rep_draw [of d] by simp_all

lemma random_index_less: "0 < n \<Longrightarrow> random_index d n < n"
proof -
  assume n: "0 < n"
  have "Rep_draw d * real n < real n"
    using Rep_draw_bounds [of d] n by simp
  then have "\<lfloor>Rep_draw d * real n\<rfloor> < int n"
    by (simp add: floor_less_iff)
  moreover have "0 \<le> \<lfloor>Rep_draw d * real n\<rfloor>"
    using Rep_draw_bounds [of d] by simp
  ultimately show ?thesis
    by (simp add: random_index_def nat_less_iff)
qed

lemma slice_index_zero: "slice_index xs 0 = 0"
  by (simp add: slice_index_def)

lemma js_slice_zero: "js_slice xs 0 t = take (slice_index xs t) xs"
  by (simp add: js_slice_def slice_index_zero)

lemma slice_index_nonneg: "0 \<le> i \<Longrightarrow> slice_index xs i = min (nat i) (length xs)"
  by (auto simp: slice_index_def Let_def min_def)

lemma slice_index_neg: "i < 0 \<Longrightarrow> slice_index xs i = length xs - nat (- i)"
  by (auto simp: slice_index_def Let_def max_def)

lemma mset_remove_nth:
  "i < length xs \<Longrightarrow> add_mset (xs ! i) (mset (take i xs @ drop (Suc i) xs)) = mset xs"
proof -
  assume "i < length xs"
  then have "xs = take i xs @ xs ! i # drop (Suc i) xs"
    by (simp add: id_take_nth_drop)
  then have "mset xs = mset (take i xs @ xs ! i # drop (Suc i) xs)"
    by simp
  then show ?thesis by simp
qed

lemma pick_loop_picks:
  "\<exists>picks. fst (pick_loop i rc recs rem g) = recs @ picks \<and> mset picks \<subseteq># mset rem
      \<and> length picks = min (nat (rc - i)) (length rem)"
proof (induction i rc recs rem g rule: pick_loop.induct)
  case (1 i rc recs rem g)
  show ?case
  proof (cases "i < rc \<and> rem \<noteq> []")
    case False
    then show ?thesis
      by (subst pick_loop.simps) auto
  next
    case True
    define k where "k = random_index (shd g) (length rem)"
    define rem' where "rem' = take k rem @ drop (Suc k) rem"
    have k: "k < length rem"
      using True by (simp add: k_def random_index_less)
    have step: "pick_loop i rc recs rem g = pick_loop (i + 1) rc (recs @ [rem ! k]) rem' (stl g)"
      using True by (subst pick_loop.simps) (simp add: k_def rem'_def Let_def)
    from "1.IH" [OF True k_def]
    obtain picks where p: "fst (pick_loop (i + 1) rc (recs @ [rem ! k]) rem' (stl g)) = (recs @ [rem ! k]) @ picks"
      "mset picks \<subseteq># mset rem'" "length picks = min (nat (rc - (i + 1))) (length rem')"
      unfolding rem'_def k_def by blast
    have m: "add_mset (rem ! k) (mset rem') = mset rem"
      unfolding rem'_def using k by (rule mset_remove_nth)
    have len: "length rem' = length rem - 1"
      using k by (simp add: rem'_def)
    have "fst (pick_loop i rc recs rem g) = recs @ (rem ! k # picks)"
      using step p(1) by simp
    moreover have "mset (rem ! k # picks) \<subseteq># mset rem"
      using p(2) m by (metis mset.simps(2) mset_subset_eq_add_mset_cancel)
    moreover have "length (rem ! k # picks) = min (nat (rc - i)) (length rem)"
    proof -
      have "nat (rc - i) = Suc (nat (rc - (i + 1)))" using True by linarith
      moreover have "length rem = Suc (length rem')" using len k by linarith
      ultimately show ?thesis using p(3) by simp
    qed
    ultimately show ?thesis by blast
  qed
qed

lemma ceil07_bounds: "0 \<le> c \<Longrightarrow> 0 \<le> \<lceil>real_of_int c * 0.7\<rceil> \<and> \<lceil>real_of_int c * 0.7\<rceil> \<le> c"
proof -
  assume c: "0 \<le> c"
  have "real_of_int c * 0.7 \<le> real_of_int c" using c by simp
  then have "\<lceil>real_of_int c * 0.7\<rceil> \<le> c" by (simp add: ceiling_le_iff)
  moreover have "0 \<le> \<lceil>real_of_int c * 0.7\<rceil>" using c by (simp add: le_ceiling_iff)
  ultimately show ?thesis by simp
qed

lemma select_result:
  "\<exists>picks. fst (selectRecommendations st scored g) =
       take (slice_index (availableArtists st scored) (topCount (select_count st scored)))
         (availableArtists st scored) @ picks
     \<and> mset picks \<subseteq>#
         mset (drop (slice_index (availableArtists st scored) (topCount (select_count st scored)))
           (availableArtists st scored))
     \<and> length picks =
         min (nat (select_count st scored - topCount (select_count st scored)))
           (length (availableArtists st scored)
              - slice_index (availableArtists st scored) (topCount (select_count st scored)))"
proof -
  define av where "av = availableArtists st scored"
  define c where "c = select_count st scored"
  define k where "k = slice_index av (topCount c)"
  obtain picks where p: "fst (pick_loop 0 (c - topCount c) (take k av) (drop k av) g) = take k av @ picks"
    "mset picks \<subseteq># mset (drop k av)" "length picks = min (nat (c - topCount c - 0)) (length (drop k av))"
    using pick_loop_picks [of 0 "c - topCount c" "take k av" "drop k av" g] by blast
  have "fst (selectRecommendations st scored g) = fst (pick_loop 0 (c - topCount c) (take k av) (drop k av) g)"
    by (simp add: selectRecommendations_def Let_def js_slice_zero js_slice_from_def av_def c_def k_def
        split: prod.splits)
  with p show ?thesis
    unfolding av_def c_def k_def by auto
qed

lemma select_state:
  "fst (snd (selectRecommendations st scored g)) =
     st\<lparr>recentlyShown :=
          (let shown = track_shown (recentlyShown st) (fst (selectRecommendations st scored g))
           in drop (length shown - 24) shown)\<rparr>"
  by (simp add: selectRecommendations_def Let_def js_slice_from_def slice_index_neg split: prod.splits)

lemma availableArtists_sub: "mset (availableArtists st scored) \<subseteq># mset scored"
  by (simp add: availableArtists_def Let_def)

lemma availableArtists_length:
  "select_count st scored \<le> int (length (availableArtists st scored))"
  by (simp add: availableArtists_def Let_def select_count_def)

lemma select_mset: "mset (fst (selectRecommendations st scored g)) \<subseteq># mset scored"
proof -
  define av where "av = availableArtists st scored"
  define k where "k = slice_index av (topCount (select_count st scored))"
  obtain picks where p: "fst (selectRecommendations st scored g) = take k av @ picks"
    "mset picks \<subseteq># mset (drop k av)"
    using select_result [of st scored g] unfolding av_def k_def by blast
  have "mset (take k av @ picks) \<subseteq># mset (take k av) + mset (drop k av)"
    using p(2) by simp
  also have "\<dots> = mset av"
    by (metis append_take_drop_id mset_append)
  finally show ?thesis
    using availableArtists_sub [of st scored] p(1) unfolding av_def by auto
qed

lemma topCount_small: "- 1 \<le> c \<Longrightarrow> c \<le> 0 \<Longrightarrow> topCount c = 0"
proof -
  assume "- 1 \<le> c" "c \<le> 0"
  then have "c = 0 \<or> c = - 1" by linarith
  then show ?thesis by (auto simp: topCount_def)
qed

lemma topCount_bounds: "0 \<le> c \<Longrightarrow> 0 \<le> topCount c \<and> topCount c \<le> c"
  unfolding topCount_def by (rule ceil07_bounds)

lemma mset_sub_distinct_plain:
  assumes "mset xs \<subseteq># mset ys" and "distinct ys"
  shows "distinct xs"
  unfolding distinct_count_atmost_1
proof (intro allI)
  fix a
  have le: "count (mset xs) a \<le> count (mset ys) a"
    using assms(1) by (rule mset_subset_eq_count)
  have "count (mset ys) a \<le> 1"
    using assms(2) by (simp add: distinct_count_atmost_1)
  with le have "count (mset xs) a \<le> 1" by simp
  then have le1: "count (mset xs) a \<le> 1" .
  show "count (mset xs) a = (if a \<in> set xs then 1 else 0)"
  proof (cases "a \<in> set xs")
    case True
    then have "0 < count (mset xs) a" by simp
    with le1 have "count (mset xs) a = 1" by linarith
    with True show ?thesis by (simp only: if_True)
  next
    case False
    then have "count (mset xs) a = 0" by (simp add: count_eq_zero_iff)
    with False show ?thesis by (simp only: if_False)
  qed
qed

lemma mset_sub_distinct:
  assumes "mset xs \<subseteq># mset ys" and "distinct (map f ys)"
  shows "distinct (map f xs)"
proof -
  from assms(1) have "image_mset f (mset xs) \<subseteq># image_mset f (mset ys)"
    by (rule image_mset_subseteq_mono)
  then have "mset (map f xs) \<subseteq># mset (map f ys)"
    by (simp only: mset_map)
  then show ?thesis using assms(2) by (rule mset_sub_distinct_plain)
qed

lemma availableBands_cleared:
  "availableBands (st\<lparr>recentlyShown := []\<rparr>) =
     filter (\<lambda>a. \<not> is_rated st a \<and> \<not> in_listen_list st a) (getInitialBandsPool st)"
  by (simp add: availableBands_def is_rated_def in_listen_list_def getInitialBandsPool_def)

lemma availableBands_length_cleared:
  "length (availableBands st) \<le> length (availableBands (st\<lparr>recentlyShown := []\<rparr>))"
proof -
  have "availableBands st = filter (\<lambda>a. artist_id a \<notin> set (recentlyShown st)) (availableBands (st\<lparr>recentlyShown := []\<rparr>))"
    unfolding availableBands_cleared by (simp add: availableBands_def conj_commute conj_left_commute)
  then show ?thesis
    by (metis length_filter_le)
qed

lemma getInitialBands_Some_enough:
  assumes "getInitialBands shuffle st g = Some r"
  shows "recommendationCount st \<le> int (length (availableBands (st\<lparr>recentlyShown := []\<rparr>)))"
proof (rule getInitialBands.raw_induct
    [where P = "\<lambda>sh s g r. recommendationCount s \<le> int (length (availableBands (s\<lparr>recentlyShown := []\<rparr>)))",
      OF _ assms])
  fix f :: "shuffle \<Rightarrow> state \<Rightarrow> rng \<Rightarrow> (artist list \<times> state \<times> rng) option"
  fix sh :: shuffle and s :: state and g :: rng and y :: "artist list \<times> state \<times> rng"
  assume IH: "\<And>sh s g y. f sh s g = Some y \<Longrightarrow>
      recommendationCount s \<le> int (length (availableBands (s\<lparr>recentlyShown := []\<rparr>)))"
  assume body: "(if int (length (availableBands s)) < recommendationCount s
      then f sh (s\<lparr>recentlyShown := []\<rparr>) g
      else case sh (availableBands s) g of
           (shuffled, g') \<Rightarrow>
             let selected = js_slice shuffled 0 (recommendationCount s);
                 shown = recentlyShown s @ map artist_id selected;
                 shown' = if 18 < length shown then js_slice_from shown (- 18) else shown
             in Some (selected, s\<lparr>recentlyShown := shown'\<rparr>, g')) = Some y"
  show "recommendationCount s \<le> int (length (availableBands (s\<lparr>recentlyShown := []\<rparr>)))"
  proof (cases "int (length (availableBands s)) < recommendationCount s")
    case True
    with body have "f sh (s\<lparr>recentlyShown := []\<rparr>) g = Some y" by simp
    from IH [OF this] show ?thesis by simp
  next
    case False
    then show ?thesis
      using availableBands_length_cleared [of s] by linarith
  qed
qed

lemma getInitialBands_diverges:
  "int (length (availableBands (st\<lparr>recentlyShown := []\<rparr>))) < recommendationCount st \<Longrightarrow>
     getInitialBands shuffle st g = None"
  using getInitialBands_Some_enough [of shuffle st g] by (cases "getInitialBands shuffle st g") auto

lemma getInitialBands_enough:
  "\<not> int (length (availableBands st)) < recommendationCount st \<Longrightarrow>
     getInitialBands shuffle st g =
       (let selected = js_slice (fst (shuffle (availableBands st) g)) 0 (recommendationCount st);
            shown = recentlyShown st @ map artist_id selected
        in Some (selected, st\<lparr>recentlyShown := drop (length shown - 18) shown\<rparr>,
                 snd (shuffle (availableBands st) g)))"
  by (subst getInitialBands.simps)
    (simp add: Let_def js_slice_from_def slice_index_neg split: prod.splits)

lemma getInitialBands_retry:
  "int (length (availableBands st)) < recommendationCount st \<Longrightarrow>
     getInitialBands shuffle st g = getInitialBands shuffle (st\<lparr>recentlyShown := []\<rparr>) g"
  by (subst getInitialBands.simps) simp

lemma getInitialBands_returns:
  assumes "recommendationCount st \<le> int (length (availableBands (st\<lparr>recentlyShown := []\<rparr>)))"
  shows "\<exists>r. getInitialBands shuffle st g = Some r"
proof (cases "int (length (availableBands st)) < recommendationCount st")
  case False
  then show ?thesis by (simp add: getInitialBands_enough Let_def)
next
  case True
  have "\<not> int (length (availableBands (st\<lparr>recentlyShown := []\<rparr>)))
      < recommendationCount (st\<lparr>recentlyShown := []\<rparr>)"
    using assms by simp
  then have "\<exists>r. getInitialBands shuffle (st\<lparr>recentlyShown := []\<rparr>) g = Some r"
    by (simp add: getInitialBands_enough Let_def)
  then show ?thesis using True by (simp add: getInitialBands_retry)
qed

lemma getInitialBands_window:
  assumes "getInitialBands shuffle st g = Some r"
  shows "\<exists>w. (w = recentlyShown st \<or> w = []) \<and>
           recentlyShown (fst (snd r)) =
             drop (length (w @ map artist_id (fst r)) - 18) (w @ map artist_id (fst r))"
proof (cases "int (length (availableBands st)) < recommendationCount st")
  case False
  then show ?thesis using assms
    by (auto simp: getInitialBands_enough Let_def)
next
  case True
  let ?st = "st\<lparr>recentlyShown := []\<rparr>"
  have r: "getInitialBands shuffle ?st g = Some r"
    using assms True by (simp add: getInitialBands_retry)
  have "recommendationCount ?st \<le> int (length (availableBands (?st\<lparr>recentlyShown := []\<rparr>)))"
    using r by (rule getInitialBands_Some_enough)
  then have "\<not> int (length (availableBands ?st)) < recommendationCount ?st" by simp
  then show ?thesis using r
    by (auto simp: getInitialBands_enough Let_def)
qed

lemma pool_empty_catalog: "artists st = [] \<Longrightarrow> getInitialBandsPool st = []"
  by (simp add: getInitialBandsPool_def List.map_filter_def)

lemma generateRecommendations_empty_catalog_rated:
  assumes "artists st = []" and "userRatings st \<noteq> []"
  shows "\<exists>r. generateRecommendations shuffle tn st g = Some r \<and> currentRecommendations (fst r) = []"
proof -
  have u: "unratedArtists st = []" using assms(1) by (simp add: unratedArtists_def)
  have "fst (selectRecommendations st [] g) = []"
    using select_mset [of st "[]" g] by simp
  then show ?thesis using assms(2) u
    by (cases "selectRecommendations st [] g")
      (simp add: generateRecommendations_def sort_by_score_def)
qed

lemma foldl_weighted:
  "foldl (\<lambda>s x. s + f x * k) s0 xs = s0 + k * sum_list (map f xs)"
  for k :: int
  by (induction xs arbitrary: s0) (simp_all add: algebra_simps)

lemma rock_genres:
  "pgenres (getUserPreferences tn rock_session) =
     [''rock'' \<mapsto> 5, ''pop'' \<mapsto> 3]"
  by (simp add: getUserPreferences_def pref_step_def find_artist_def add_weight_def weight_def
      empty_preferences_def rock_session_def empty_session_def artist_A_def artist_B_def artist_C_def
      mk_artist_def)

lemma rock_eras:
  "peras (getUserPreferences tn rock_session) = [''1960s'' \<mapsto> 5, ''1980s'' \<mapsto> 3]"
  by (simp add: getUserPreferences_def pref_step_def find_artist_def add_weight_def weight_def
      empty_preferences_def rock_session_def empty_session_def artist_A_def artist_B_def artist_C_def
      mk_artist_def)

lemma filter_absent: "x \<notin> f ` set xs \<Longrightarrow> filter (\<lambda>a. f a \<noteq> x) xs = xs"
  by (induction xs) auto

subsection \<open>The claims\<close>

text \<open>
  C1 (as amended). The mean rating of the profile is the sum of the rating values of the entries
  whose identifier is found in the catalog, divided by the number of those entries, and 0 when
  there is no such entry. An entry whose identifier is not in the catalog is left at the
  \<^verbatim>\<open>if (!artist) return\<close> of the loop body and counts neither in the sum nor in the count.
\<close>

theorem C1_mean_over_found_ratings:
  "averageRating (getUserPreferences tn st) =
     (if found_ratings tn st = [] then 0
      else of_int (rating_sum (found_ratings tn st)) / of_nat (length (found_ratings tn st)))"
proof -
  obtain p t c where f:
    "foldl (pref_step tn (artists st)) (empty_preferences, 0, 0) (userRatings st) = (p, t, c)"
    by (cases "foldl (pref_step tn (artists st)) (empty_preferences, 0, 0) (userRatings st)") auto
  have "snd (foldl (pref_step tn (artists st)) (empty_preferences, 0, 0) (userRatings st)) =
     (rating_sum (found_ratings tn st), length (found_ratings tn st))"
    using pref_step_counters [of tn "artists st" empty_preferences 0 0 "userRatings st"]
    by (simp add: found_ratings_def)
  with f have "t = rating_sum (found_ratings tn st)" "c = length (found_ratings tn st)"
    by simp_all
  then show ?thesis
    by (simp add: getUserPreferences_def f)
qed

text \<open>Both rated artists of the example catalog are found: the mean is (5 + 3) / 2.\<close>

theorem C1_mean_witness:
  "averageRating (getUserPreferences no_number rock_session) = 4"
  using C1_mean_over_found_ratings [of no_number rock_session]
  by (simp add: found_ratings_def in_catalog_def find_artist_def rock_session_def
      empty_session_def artist_A_def artist_B_def artist_C_def mk_artist_def rating_sum_def)

text \<open>
  One rating of 5 for an identifier that the (empty) catalog does not hold: the mean over all
  entries is 5, the profile's mean is 0.
\<close>

theorem C1_mean_counterexample:
  "averageRating (getUserPreferences no_number unknown_rating_session) \<noteq>
     of_int (rating_sum (userRatings unknown_rating_session)) /
       of_nat (length (userRatings unknown_rating_session))"
  by (simp add: getUserPreferences_def unknown_rating_session_def empty_session_def
      pref_step_def find_artist_def rating_sum_def)

text \<open>
  C2 fails on the code. With an empty catalog and no rating, \<^verbatim>\<open>generateRecommendations\<close>
  calls \<^verbatim>\<open>getInitialBands\<close>, which finds fewer available bands than the requested count,
  clears the window and calls itself in the same situation again: the cycle does not return
  a list. (With a rating present the cycle returns the empty list, see
  \<open>generateRecommendations_empty_catalog_rated\<close>.)
\<close>

theorem C2_empty_catalog_cold_start:
  "generateRecommendations shuffle tn empty_session g = None"
proof -
  have "availableBands (empty_session\<lparr>recentlyShown := []\<rparr>) = []"
    by (simp add: availableBands_def pool_empty_catalog empty_session_def)
  then have "getInitialBands shuffle empty_session g = None"
    by (intro getInitialBands_diverges) (simp add: empty_session_def)
  then show ?thesis
    by (simp add: generateRecommendations_def empty_session_def)
qed

text \<open>
  C3 fails on the code. With a catalog that holds five bands of the pool, six requested and no
  rating, fewer than six bands are available also after the window is cleared, and the retry
  of \<^verbatim>\<open>getInitialBands\<close> repeats without end. The draw returns exactly when at least
  \<^verbatim>\<open>recommendationCount\<close> bands of the pool are neither rated nor saved (lemmas
  \<open>getInitialBands_returns\<close> and \<open>getInitialBands_Some_enough\<close>).
\<close>

theorem C3_cold_start_diverges:
  "getInitialBands shuffle five_band_session g = None"
proof -
  have "length (availableBands (five_band_session\<lparr>recentlyShown := []\<rparr>)) = 5"
    by (simp add: availableBands_def getInitialBandsPool_def popularBandIds_def
        List.map_filter_def is_rated_def in_listen_list_def five_band_session_def
        empty_session_def band_def mk_artist_def)
  then show ?thesis
    by (intro getInitialBands_diverges) (simp add: five_band_session_def empty_session_def)
qed

text \<open>
  C4 (as amended). Removing a saved-for-later entry whose identifier is not in the saved list
  leaves the session as it is. \<^verbatim>\<open>removeRecommendation\<close> with an identifier that is not
  displayed leaves the catalog, the rating history, the saved list and the recently-shown
  window as they are and keeps the displayed entries in place, but it still draws a
  replacement: one entry is appended to the displayed list whenever a candidate for the
  replacement exists.
\<close>

theorem C4_remove_absent:
  "(artistId \<notin> artist_id ` set (currentRecommendations st) \<longrightarrow>
      artists (fst (removeRecommendation tn st artistId g)) = artists st
      \<and> userRatings (fst (removeRecommendation tn st artistId g)) = userRatings st
      \<and> toListenList (fst (removeRecommendation tn st artistId g)) = toListenList st
      \<and> recentlyShown (fst (removeRecommendation tn st artistId g)) = recentlyShown st
      \<and> recommendationCount (fst (removeRecommendation tn st artistId g)) = recommendationCount st
      \<and> take (length (currentRecommendations st))
            (currentRecommendations (fst (removeRecommendation tn st artistId g)))
          = currentRecommendations st
      \<and> length (currentRecommendations (fst (removeRecommendation tn st artistId g))) =
          length (currentRecommendations st)
            + (if replacement_pool st (currentRecommendations st) = [] then 0 else 1))
   \<and> (artistId \<notin> item_id ` set (toListenList st) \<longrightarrow> removeFromListenList st artistId = st)"
proof -
  have saved: "removeFromListenList st artistId = st"
    if "artistId \<notin> item_id ` set (toListenList st)"
    using that by (simp add: removeFromListenList_def filter_absent)
  have shown: "artists (fst (removeRecommendation tn st artistId g)) = artists st
      \<and> userRatings (fst (removeRecommendation tn st artistId g)) = userRatings st
      \<and> toListenList (fst (removeRecommendation tn st artistId g)) = toListenList st
      \<and> recentlyShown (fst (removeRecommendation tn st artistId g)) = recentlyShown st
      \<and> recommendationCount (fst (removeRecommendation tn st artistId g)) = recommendationCount st
      \<and> take (length (currentRecommendations st))
            (currentRecommendations (fst (removeRecommendation tn st artistId g)))
          = currentRecommendations st
      \<and> length (currentRecommendations (fst (removeRecommendation tn st artistId g))) =
          length (currentRecommendations st)
            + (if replacement_pool st (currentRecommendations st) = [] then 0 else 1)"
    if h: "artistId \<notin> artist_id ` set (currentRecommendations st)"
  proof -
    have cur: "filter (\<lambda>a. artist_id a \<noteq> artistId) (currentRecommendations st) = currentRecommendations st"
      using h by (rule filter_absent)
    show ?thesis
      by (simp add: removeRecommendation_def replacement_pool_def cur Let_def split: prod.splits)
  qed
  show ?thesis using saved shown by blast
qed

text \<open>
  One pool band in the catalog, nothing displayed, rated or saved: removing the identifier 999
  appends the band to the displayed list.
\<close>

theorem C4_witness:
  "IdNum 999 \<notin> artist_id ` set (currentRecommendations one_band_session)
   \<and> IdNum 999 \<notin> item_id ` set (toListenList one_band_session)
   \<and> removeFromListenList one_band_session (IdNum 999) = one_band_session
   \<and> userRatings (fst (removeRecommendation no_number one_band_session (IdNum 999) (rng_of 50)))
       = userRatings one_band_session
   \<and> length (currentRecommendations
         (fst (removeRecommendation no_number one_band_session (IdNum 999) (rng_of 50)))) = 1"
proof -
  have h1: "IdNum 999 \<notin> artist_id ` set (currentRecommendations one_band_session)"
    by (simp add: one_band_session_def empty_session_def)
  have h2: "IdNum 999 \<notin> item_id ` set (toListenList one_band_session)"
    by (simp add: one_band_session_def empty_session_def)
  have pool: "replacement_pool one_band_session [] = [band 1]"
    by (simp add: replacement_pool_def one_band_session_def empty_session_def
        getInitialBandsPool_def popularBandIds_def List.map_filter_def in_listen_list_def
        band_def mk_artist_def)
  have cur: "currentRecommendations one_band_session = []"
    by (simp add: one_band_session_def empty_session_def)
  show ?thesis
    using C4_remove_absent [of "IdNum 999" one_band_session no_number "rng_of 50"] h1 h2
    by (simp add: pool cur)
qed

text \<open>The same call: the displayed list is not what it was.\<close>

theorem C4_remove_counterexample:
  "IdNum 999 \<notin> artist_id ` set (currentRecommendations one_band_session)
   \<and> currentRecommendations (fst (removeRecommendation no_number one_band_session (IdNum 999) (rng_of 50)))
       \<noteq> currentRecommendations one_band_session"
  by (simp add: one_band_session_def empty_session_def removeRecommendation_def
      getInitialBandsPool_def popularBandIds_def List.map_filter_def in_listen_list_def
      random_index_def rng_of_def draw_of_percent.rep_eq band_def mk_artist_def Let_def)

text \<open>
  C5 (as amended). For a requested count of 0 or -1, \<^verbatim>\<open>selectRecommendations\<close> returns
  the empty list, whatever the scored candidates are.
\<close>

theorem C5_zero_count:
  "- 1 \<le> recommendationCount st \<Longrightarrow> recommendationCount st \<le> 0 \<Longrightarrow>
     fst (selectRecommendations st scored g) = []"
proof -
  assume n: "- 1 \<le> recommendationCount st" "recommendationCount st \<le> 0"
  then have c: "select_count st scored = recommendationCount st"
    by (simp add: select_count_def)
  have t: "topCount (select_count st scored) = 0"
    using n c by (simp add: topCount_small)
  obtain picks where p:
    "fst (selectRecommendations st scored g) =
       take (slice_index (availableArtists st scored) 0) (availableArtists st scored) @ picks"
    "length picks =
       min (nat (select_count st scored - 0))
         (length (availableArtists st scored) - slice_index (availableArtists st scored) 0)"
    using select_result [of st scored g] unfolding t by blast
  have "nat (select_count st scored - 0) = 0" using n c by simp
  then have "picks = []" using p(2) by simp
  then show ?thesis using p(1) by (simp add: slice_index_zero)
qed

text \<open>Count 0 on a list of two candidates.\<close>

theorem C5_zero_count_witness:
  "fst (selectRecommendations zero_count_session two_scored (rng_of 50)) = []"
  using C5_zero_count [of zero_count_session two_scored "rng_of 50"]
  by (simp add: zero_count_session_def empty_session_def)

text \<open>
  Count -2 on two candidates: \<^verbatim>\<open>topCount\<close> is \<^verbatim>\<open>Math.ceil(-1.4) = -1\<close> and
  \<^verbatim>\<open>slice(0, -1)\<close> keeps the first of the two.
\<close>

theorem C5_negative_count_counterexample:
  "recommendationCount negative_count_session \<le> 0 \<and>
   fst (selectRecommendations negative_count_session two_scored (rng_of 50)) \<noteq> []"
  by (simp add: selectRecommendations_def select_count_def availableArtists_def topCount_def
      js_slice_def js_slice_from_def slice_index_def pick_loop.simps
      negative_count_session_def empty_session_def two_scored_def Let_def)

text \<open>
  C6. An artist in the eligible set of a cycle, on the scored path (\<^verbatim>\<open>unratedArtists\<close>) as on
  the cold-start path (\<^verbatim>\<open>availableBands\<close>), has an identifier that is no key of the rating
  mapping and is not in the saved-for-later list.
\<close>

theorem C6_eligible_excludes_rated_and_saved:
  "a \<in> set (unratedArtists st) \<or> a \<in> set (availableBands st) \<Longrightarrow>
     prop_key (artist_id a) \<notin> fst ` set (userRatings st)
     \<and> artist_id a \<notin> item_id ` set (toListenList st)"
  by (auto simp: unratedArtists_def availableBands_def is_rated_def in_listen_list_def
      list_ex_iff map_of_eq_None_iff)

text \<open>Band 1 is rated, band 2 is eligible.\<close>

theorem C6_witness:
  "band 2 \<in> set (unratedArtists two_band_session)
   \<and> prop_key (artist_id (band 2)) \<notin> fst ` set (userRatings two_band_session)
   \<and> artist_id (band 2) \<notin> item_id ` set (toListenList two_band_session)"
proof -
  have "band 2 \<in> set (unratedArtists two_band_session)"
    by (simp add: unratedArtists_def is_rated_def in_listen_list_def two_band_session_def
        empty_session_def band_def mk_artist_def string_of_int_def string_of_nat.simps digit_char_def)
  then show ?thesis
    using C6_eligible_excludes_rated_and_saved [of "band 2" two_band_session] by simp
qed

text \<open>
  C7. When a cold-start draw returns, the window holds at most 18 identifiers: the last 18 of
  the window (as it was, or cleared by the retry) followed by the identifiers drawn. After a
  general selection it holds at most 24: the last 24 of the window extended by the selected
  identifiers that were not in it. The oldest entries are the ones evicted.
\<close>

theorem C7_recency_window_cap:
  "(getInitialBands shuffle st g = Some r \<longrightarrow>
      length (recentlyShown (fst (snd r))) \<le> 18
      \<and> (\<exists>w. (w = recentlyShown st \<or> w = [])
            \<and> recentlyShown (fst (snd r)) =
                drop (length (w @ map artist_id (fst r)) - 18) (w @ map artist_id (fst r))))
   \<and> length (recentlyShown (fst (snd (selectRecommendations st scored g)))) \<le> 24
   \<and> recentlyShown (fst (snd (selectRecommendations st scored g))) =
       drop (length (track_shown (recentlyShown st) (fst (selectRecommendations st scored g))) - 24)
         (track_shown (recentlyShown st) (fst (selectRecommendations st scored g)))"
proof -
  have a: "length (recentlyShown (fst (snd r))) \<le> 18
      \<and> (\<exists>w. (w = recentlyShown st \<or> w = [])
            \<and> recentlyShown (fst (snd r)) =
                drop (length (w @ map artist_id (fst r)) - 18) (w @ map artist_id (fst r)))"
    if h: "getInitialBands shuffle st g = Some r"
  proof -
    obtain w where w: "w = recentlyShown st \<or> w = []"
      "recentlyShown (fst (snd r)) =
         drop (length (w @ map artist_id (fst r)) - 18) (w @ map artist_id (fst r))"
      using getInitialBands_window [OF h] by blast
    have "length (recentlyShown (fst (snd r))) \<le> 18"
      unfolding w(2) by simp
    with w show ?thesis by blast
  qed
  have b: "recentlyShown (fst (snd (selectRecommendations st scored g))) =
       drop (length (track_shown (recentlyShown st) (fst (selectRecommendations st scored g))) - 24)
         (track_shown (recentlyShown st) (fst (selectRecommendations st scored g)))"
    by (simp add: select_state Let_def)
  have c: "length (recentlyShown (fst (snd (selectRecommendations st scored g)))) \<le> 24"
    unfolding b by simp
  show ?thesis using a b c by blast
qed

text \<open>A draw that returns: seven bands of the pool in the catalog, six requested.\<close>

theorem C7_witness:
  "getInitialBands keep_order seven_band_session (rng_of 50) \<noteq> None
   \<and> length (recentlyShown (fst (snd (the (getInitialBands keep_order seven_band_session (rng_of 50)))))) \<le> 18"
proof -
  have "length (availableBands (seven_band_session\<lparr>recentlyShown := []\<rparr>)) = 7"
    by (simp add: availableBands_def getInitialBandsPool_def popularBandIds_def
        List.map_filter_def is_rated_def in_listen_list_def seven_band_session_def
        empty_session_def band_def mk_artist_def)
  then have "recommendationCount seven_band_session
      \<le> int (length (availableBands (seven_band_session\<lparr>recentlyShown := []\<rparr>)))"
    by (simp add: seven_band_session_def empty_session_def)
  then obtain r where r: "getInitialBands keep_order seven_band_session (rng_of 50) = Some r"
    using getInitialBands_returns by blast
  show ?thesis
    using C7_recency_window_cap [of keep_order seven_band_session "rng_of 50" r] r by simp
qed

text \<open>
  C8. The score is 3 times the sum of the genre weights of the candidate's genres, plus 2 times
  the sum of the theme weights, plus 2 times the sum of the style weights, plus the weight of
  its era, plus 10 times the draw, which lies in \<open>[0, 10)\<close>; a tag absent from the profile
  weighs 0. For the ratings A: 5, B: 3 with A and C tagged rock and B tagged pop, the genre
  weights are rock 5 and pop 3, and the genre component of the score of C is 15.
\<close>

theorem C8_score_formula:
  "calculateArtistScore a p d =
     of_int (3 * (\<Sum>t\<leftarrow>genres a. weight (pgenres p) t)
           + 2 * (\<Sum>t\<leftarrow>themes a. weight (pthemes p) t)
           + 2 * (\<Sum>t\<leftarrow>styles a. weight (pstyles p) t)
           + 1 * weight (peras p) (era a))
       + 10 * Rep_draw d
   \<and> 0 \<le> 10 * Rep_draw d \<and> 10 * Rep_draw d < 10
   \<and> (m tag = None \<longrightarrow> weight m tag = 0)
   \<and> weight (pgenres (getUserPreferences tn rock_session)) ''rock'' = 5
   \<and> weight (pgenres (getUserPreferences tn rock_session)) ''pop'' = 3
   \<and> 3 * (\<Sum>t\<leftarrow>genres artist_C. weight (pgenres (getUserPreferences tn rock_session)) t) = 15
   \<and> calculateArtistScore artist_C (getUserPreferences tn rock_session) d = 15 + 10 * Rep_draw d"
proof -
  have formula: "calculateArtistScore a p d =
     of_int (3 * (\<Sum>t\<leftarrow>genres a. weight (pgenres p) t)
           + 2 * (\<Sum>t\<leftarrow>themes a. weight (pthemes p) t)
           + 2 * (\<Sum>t\<leftarrow>styles a. weight (pstyles p) t)
           + 1 * weight (peras p) (era a))
       + 10 * Rep_draw d" for a p
    by (simp add: calculateArtistScore_def Let_def foldl_weighted)
  have noise: "0 \<le> 10 * Rep_draw d" "10 * Rep_draw d < 10"
    using Rep_draw_bounds [of d] by simp_all
  have absent: "m tag = None \<longrightarrow> weight m tag = 0"
    by (simp add: weight_def)
  have rock: "weight (pgenres (getUserPreferences tn rock_session)) ''rock'' = 5"
    and pop: "weight (pgenres (getUserPreferences tn rock_session)) ''pop'' = 3"
    by (simp_all add: rock_genres weight_def)
  have component: "3 * (\<Sum>t\<leftarrow>genres artist_C. weight (pgenres (getUserPreferences tn rock_session)) t) = 15"
    by (simp add: rock artist_C_def mk_artist_def)
  have c: "calculateArtistScore artist_C (getUserPreferences tn rock_session) d = 15 + 10 * Rep_draw d"
    unfolding formula by (simp add: rock_genres rock_eras weight_def artist_C_def mk_artist_def)
  show ?thesis
    using formula [of a p] noise absent rock pop component c by blast
qed

text \<open>The tag jazz is absent from the example profile.\<close>

theorem C8_witness:
  "pgenres (getUserPreferences no_number rock_session) ''jazz'' = None
   \<and> weight (pgenres (getUserPreferences no_number rock_session)) ''jazz'' = 0"
proof -
  have "pgenres (getUserPreferences no_number rock_session) ''jazz'' = None"
    by (simp add: rock_genres)
  then show ?thesis
    using C8_score_formula [of artist_C "getUserPreferences no_number rock_session" "draw_of_percent 50"
        "pgenres (getUserPreferences no_number rock_session)" "''jazz''" no_number]
    by blast
qed

text \<open>
  C9 (as amended). For a requested count \<open>N \<ge> 0\<close>, with \<open>count = min N (number of candidates)\<close>
  and \<open>top = ceil (0.7 * count)\<close>, \<^verbatim>\<open>selectRecommendations\<close> returns the first \<open>top\<close> entries
  of the pool followed by \<open>count - top\<close> entries drawn without replacement from the rest of
  the pool. With \<open>N = 6\<close> and at least 10 candidates with distinct identifiers it returns
  6 entries with distinct identifiers.
\<close>

theorem C9_selection_composition:
  "0 \<le> recommendationCount st \<Longrightarrow>
     (\<exists>picks.
        fst (selectRecommendations st scored g) =
          take (nat (topCount (select_count st scored))) (availableArtists st scored) @ picks
        \<and> mset picks \<subseteq>#
            mset (drop (nat (topCount (select_count st scored))) (availableArtists st scored))
        \<and> length picks = nat (select_count st scored - topCount (select_count st scored)))
     \<and> (recommendationCount st = 6 \<and> 10 \<le> length scored \<and> distinct (map artist_id scored) \<longrightarrow>
          length (fst (selectRecommendations st scored g)) = 6
          \<and> distinct (map artist_id (fst (selectRecommendations st scored g))))"
proof -
  assume n: "0 \<le> recommendationCount st"
  define av where "av = availableArtists st scored"
  define c where "c = select_count st scored"
  have c0: "0 \<le> c" using n by (simp add: c_def select_count_def)
  have t: "0 \<le> topCount c" "topCount c \<le> c" using topCount_bounds [OF c0] by simp_all
  have len: "c \<le> int (length av)"
    unfolding c_def av_def by (rule availableArtists_length)
  have k: "slice_index av (topCount c) = nat (topCount c)"
    using t len by (simp add: slice_index_nonneg)
  obtain picks where p: "fst (selectRecommendations st scored g) = take (nat (topCount c)) av @ picks"
    "mset picks \<subseteq># mset (drop (nat (topCount c)) av)"
    "length picks = min (nat (c - topCount c)) (length av - nat (topCount c))"
    using select_result [of st scored g] unfolding av_def [symmetric] c_def [symmetric] k by blast
  have pl: "length picks = nat (c - topCount c)"
    using p(3) t len by linarith
  have total: "length (fst (selectRecommendations st scored g)) = nat c"
    using p(1) pl t len by (simp add: min_def) linarith
  have first: "\<exists>picks.
        fst (selectRecommendations st scored g) = take (nat (topCount c)) av @ picks
        \<and> mset picks \<subseteq># mset (drop (nat (topCount c)) av)
        \<and> length picks = nat (c - topCount c)"
    using p(1,2) pl by blast
  have second: "length (fst (selectRecommendations st scored g)) = 6
          \<and> distinct (map artist_id (fst (selectRecommendations st scored g)))"
    if h: "recommendationCount st = 6 \<and> 10 \<le> length scored \<and> distinct (map artist_id scored)"
  proof -
    have "c = 6" using h by (simp add: c_def select_count_def)
    then have "length (fst (selectRecommendations st scored g)) = 6" using total by simp
    moreover have "distinct (map artist_id (fst (selectRecommendations st scored g)))"
      using select_mset [of st scored g] h by (blast intro: mset_sub_distinct)
    ultimately show ?thesis by simp
  qed
  show ?thesis
    using first second unfolding av_def c_def by blast
qed

text \<open>Six requested from ten candidates.\<close>

theorem C9_witness:
  "length (fst (selectRecommendations empty_session ten_scored (rng_of 50))) = 6
   \<and> distinct (map artist_id (fst (selectRecommendations empty_session ten_scored (rng_of 50))))"
  using C9_selection_composition [of empty_session ten_scored "rng_of 50"]
  by (simp add: empty_session_def ten_scored_def scored_band_def band_def mk_artist_def)

text \<open>
  Eight requested from seven candidates: \<open>ceil (0.7 * 8) = 6\<close>, but the code takes
  \<open>ceil (0.7 * 7) = 5\<close> from the head and draws the other two, here bands 7 and 6 in this
  order, so the sixth entry returned is not the sixth of the pool.
\<close>

theorem C9_top_count_counterexample:
  "take (nat \<lceil>real_of_int (recommendationCount eight_count_session) * 0.7\<rceil>)
     (fst (selectRecommendations eight_count_session seven_scored (rng_of 90)))
   \<noteq> take (nat \<lceil>real_of_int (recommendationCount eight_count_session) * 0.7\<rceil>) seven_scored"
  by (simp add: selectRecommendations_def select_count_def availableArtists_def topCount_def
      js_slice_def js_slice_from_def slice_index_def pick_loop.simps random_index_def
      rng_of_def draw_of_percent.rep_eq
      eight_count_session_def empty_session_def seven_scored_def scored_band_def band_def mk_artist_def Let_def)

text \<open>
  C10. The entities that \<^verbatim>\<open>selectRecommendations\<close> returns are entries of the list it is
  given, each taken at most once, and of the session only the recently-shown window changes.
\<close>

theorem C10_selection_frame:
  "mset (fst (selectRecommendations st scored g)) \<subseteq># mset scored
   \<and> artists (fst (snd (selectRecommendations st scored g))) = artists st
   \<and> userRatings (fst (snd (selectRecommendations st scored g))) = userRatings st
   \<and> toListenList (fst (snd (selectRecommendations st scored g))) = toListenList st
   \<and> currentRecommendations (fst (snd (selectRecommendations st scored g))) = currentRecommendations st
   \<and> recommendationCount (fst (snd (selectRecommendations st scored g))) = recommendationCount st"
  using select_mset [of st scored g] by (simp add: select_state)

end
